theory Spec2Isabelle
  imports Main "HOL-Library.Word" "HOL-Library.Sublist"
begin

section \<open>Data model of the card-list view (src/ExpandableCard.tsx)\<close>

text \<open>
  Strings are lists of 8-bit characters; a non-ASCII character of a source literal is
  written as its UTF-8 bytes. An exception value is represented by its message.
\<close>

type_synonym byte = "8 word"
type_synonym exn = string

text \<open>
  \<^verbatim>\<open>interface ExpandableCardProps { id: number; title: string; details: string; nfcData?: string }\<close>
  The field \<open>id\<close> is named \<open>id_card\<close> (the name \<open>id\<close> is the identity function of HOL).
  Identifiers are only ever produced as \<open>1\<close> or \<open>length + 1\<close>, so they are integers.
\<close>

record ExpandableCardProps =
  id_card :: int
  title :: string
  details :: string
  nfcData :: "string option"

text \<open>
  What the scan reads of the tag descriptor returned by the NFC service: the optional list
  \<open>ndefMessage\<close> of records, and of each record its \<open>payload\<close>, an array of numbers.
\<close>

record NdefRecord =
  payload :: "int list"

record TagEvent =
  ndefMessage :: "NdefRecord list option"

text \<open>
  The external NFC service, as one invocation of the calling code observes it: each
  awaited call either rejects with an exception or resolves with a value.
\<close>

record NfcManager =
  isSupported :: "exn + bool"
  start :: "exn option"
  requestTechnology :: "exn option"
  getTag :: "exn + TagEvent option"

datatype nfc_call = IsSupported | Start | RequestTechnology | GetTag | CancelTechnologyRequest

text \<open>
  The state owned by the component \<open>App\<close>: its three \<open>useState\<close> cells, and the
  effects it has on the outside, recorded in order: the notices shown with \<open>Alert.alert\<close>
  (title and message), the console lines, and the calls made to the NFC service.
\<close>

record App_state =
  cards :: "ExpandableCardProps list"
  isNfcSupported :: bool
  scanModalVisible :: bool
  alerts :: "(string \<times> string) list"
  console :: "string list list"
  nfc_calls :: "nfc_call list"

text \<open>The initial values of the \<open>useState\<close> cells: one seeded card with identifier 1.\<close>

definition App :: App_state where
  "App = \<lparr>cards = [\<lparr>id_card = 1, title = ''Kart 1'',
                     details = ''Bu, birinci kart'' @ [CHR 0xC4, CHR 0xB1] @ ''n detaylar''
                       @ [CHR 0xC4, CHR 0xB1] @ ''d'' @ [CHR 0xC4, CHR 0xB1] @ ''r.'',
                     nfcData = None\<rparr>],
          isNfcSupported = False, scanModalVisible = False,
          alerts = [], console = [], nfc_calls = []\<rparr>"

section \<open>Operations\<close>

definition call :: "nfc_call \<Rightarrow> App_state \<Rightarrow> App_state" where
  "call c s = s\<lparr>nfc_calls := nfc_calls s @ [c]\<rparr>"

definition Alert_alert :: "string \<Rightarrow> string \<Rightarrow> App_state \<Rightarrow> App_state" where
  "Alert_alert t m s = s\<lparr>alerts := alerts s @ [(t, m)]\<rparr>"

definition console_line :: "string list \<Rightarrow> App_state \<Rightarrow> App_state" where
  "console_line args s = s\<lparr>console := console s @ [args]\<rparr>"

definition setCards ::
  "(ExpandableCardProps list \<Rightarrow> ExpandableCardProps list) \<Rightarrow> App_state \<Rightarrow> App_state" where
  "setCards f s = s\<lparr>cards := f (cards s)\<rparr>"

subsection \<open>The capability check run once on mount\<close>

definition initializeNfc_catch :: "exn \<Rightarrow> App_state \<Rightarrow> App_state" where
  "initializeNfc_catch ex s =
     (console_line [''Error initializing NFC'', ex] s)\<lparr>isNfcSupported := False\<rparr>"

definition initializeNfc :: "NfcManager \<Rightarrow> App_state \<Rightarrow> App_state" where
  "initializeNfc nfc s =
     (let s1 = call IsSupported s in
      case isSupported nfc of
        Inl ex \<Rightarrow> initializeNfc_catch ex s1
      | Inr supported \<Rightarrow>
          if supported then
            (let s2 = call Start s1 in
             case start nfc of
               Some ex \<Rightarrow> initializeNfc_catch ex s2
             | None \<Rightarrow> s2\<lparr>isNfcSupported := True\<rparr>)
          else (console_line [''NFC not supported''] s1)\<lparr>isNfcSupported := False\<rparr>)"

subsection \<open>The scan trigger\<close>

definition openScanModal :: "App_state \<Rightarrow> App_state" where
  "openScanModal s =
     (if \<not> isNfcSupported s
      then Alert_alert ''NFC Error'' ''NFC is not supported on this device'' s
      else s\<lparr>scanModalVisible := True\<rparr>)"

subsection \<open>The scan\<close>

text \<open>\<open>new Uint8Array(numbers)\<close> keeps of each integer its value modulo 256.\<close>

definition Uint8Array :: "int list \<Rightarrow> byte list" where
  "Uint8Array xs = map word_of_int xs"

text \<open>
  The text decoder \<open>Ndef.text.decodePayload\<close> belongs to the external library: it is a
  parameter \<open>dec\<close> of the model, which either throws or returns the text.

  \<^verbatim>\<open>ndefRecords && ndefRecords.length > 0 ? decodePayload(new Uint8Array(ndefRecords[0].payload))
                                           : 'No readable data'\<close>
\<close>

definition parsedData :: "(byte list \<Rightarrow> exn + string) \<Rightarrow> TagEvent \<Rightarrow> exn + string" where
  "parsedData dec tag =
     (case ndefMessage tag of
        None \<Rightarrow> Inr ''No readable data''
      | Some ndefRecords \<Rightarrow>
          (case ndefRecords of
             [] \<Rightarrow> Inr ''No readable data''
           | r # _ \<Rightarrow> dec (Uint8Array (payload r))))"

definition newCard :: "string \<Rightarrow> int \<Rightarrow> ExpandableCardProps" where
  "newCard text i =
     \<lparr>id_card = i, title = ''New NFC Card'', details = ''Card scanned successfully'',
      nfcData = Some text\<rparr>"

text \<open>
  The body of the \<open>try\<close> block: the state it leaves, and the exception that left it, if any.
\<close>

definition scanNfc_try ::
  "(byte list \<Rightarrow> exn + string) \<Rightarrow> NfcManager \<Rightarrow> App_state \<Rightarrow> exn option \<times> App_state" where
  "scanNfc_try dec nfc s =
     (let s1 = call RequestTechnology s in
      case requestTechnology nfc of
        Some ex \<Rightarrow> (Some ex, s1)
      | None \<Rightarrow>
          (let s2 = call GetTag s1 in
           case getTag nfc of
             Inl ex \<Rightarrow> (Some ex, s2)
           | Inr None \<Rightarrow> (None, s2)
           | Inr (Some tag) \<Rightarrow>
               (case parsedData dec tag of
                  Inl ex \<Rightarrow> (Some ex, s2)
                | Inr text \<Rightarrow>
                    (None,
                     setCards (\<lambda>prev. prev @ [newCard text (int (length prev) + 1)]) s2))))"

definition scanNfc_catch :: "exn \<Rightarrow> App_state \<Rightarrow> App_state" where
  "scanNfc_catch ex s =
     Alert_alert ''NFC Error'' ''Failed to scan NFC tag'' (console_line [''NFC Scan Error'', ex] s)"

definition scanNfc_finally :: "App_state \<Rightarrow> App_state" where
  "scanNfc_finally s = (call CancelTechnologyRequest s)\<lparr>scanModalVisible := False\<rparr>"

definition scanNfc ::
  "(byte list \<Rightarrow> exn + string) \<Rightarrow> NfcManager \<Rightarrow> App_state \<Rightarrow> App_state" where
  "scanNfc dec nfc s =
     (case scanNfc_try dec nfc s of
        (None, s') \<Rightarrow> scanNfc_finally s'
      | (Some ex, s') \<Rightarrow> scanNfc_finally (scanNfc_catch ex s'))"

subsection \<open>Deleting a card\<close>

text \<open>
  \<^verbatim>\<open>setCards(cards.filter((card) => card.id !== id))\<close>, where \<open>cards\<close> is the
  collection of the render that created the callback.
\<close>

definition deleteCard :: "int \<Rightarrow> App_state \<Rightarrow> App_state" where
  "deleteCard i s = setCards (\<lambda>_. filter (\<lambda>card. id_card card \<noteq> i) (cards s)) s"

section \<open>Sequences of operations\<close>

text \<open>
  A user session is a list of events: a scan against what the NFC service does during it,
  or the confirmed deletion of an identifier. A scan is successful when the session is
  granted, a tag is read and its text is obtained, which is when a card is appended.
\<close>

datatype event = Scan NfcManager | Delete int

fun step :: "(byte list \<Rightarrow> exn + string) \<Rightarrow> event \<Rightarrow> App_state \<Rightarrow> App_state" where
  "step dec (Scan nfc) s = scanNfc dec nfc s"
| "step dec (Delete i) s = deleteCard i s"

fun run :: "(byte list \<Rightarrow> exn + string) \<Rightarrow> event list \<Rightarrow> App_state \<Rightarrow> App_state" where
  "run dec [] s = s"
| "run dec (e # es) s = run dec es (step dec e s)"

fun successful :: "(byte list \<Rightarrow> exn + string) \<Rightarrow> event \<Rightarrow> bool" where
  "successful dec (Scan nfc) =
     (case requestTechnology nfc of
        Some _ \<Rightarrow> False
      | None \<Rightarrow>
          (case getTag nfc of
             Inr (Some tag) \<Rightarrow> (case parsedData dec tag of Inr _ \<Rightarrow> True | Inl _ \<Rightarrow> False)
           | _ \<Rightarrow> False))"
| "successful dec (Delete i) = True"

section \<open>Stand-ins for the external service in the concrete instances\<close>

text \<open>
  A text decoder that rejects an empty payload and otherwise reads each byte as one
  character; an NFC service whose session request and tag read have the given results; a tag
  whose records carry the given payloads; a service that reports the hardware as unsupported;
  a state with three cards.
\<close>

definition decodePayload_mock :: "byte list \<Rightarrow> exn + string" where
  "decodePayload_mock bs =
     (if bs = [] then Inl ''empty payload'' else Inr (map (\<lambda>b. char_of (unat b)) bs))"

definition mock_nfc :: "exn option \<Rightarrow> exn + TagEvent option \<Rightarrow> NfcManager" where
  "mock_nfc req tag = \<lparr>isSupported = Inr True, start = None, requestTechnology = req, getTag = tag\<rparr>"

definition mock_tag :: "int list list \<Rightarrow> exn + TagEvent option" where
  "mock_tag ps = Inr (Some \<lparr>ndefMessage = Some (map (\<lambda>p. \<lparr>payload = p\<rparr>) ps)\<rparr>)"

definition mock_nfc_unsupported :: NfcManager where
  "mock_nfc_unsupported =
     \<lparr>isSupported = Inr False, start = None, requestTechnology = Some ''no NFC'', getTag = Inl ''no NFC''\<rparr>"

definition mock_three_cards :: App_state where
  "mock_three_cards = App\<lparr>cards := [newCard ''a'' 1, newCard ''b'' 2, newCard ''c'' 3]\<rparr>"

section \<open>Auxiliary facts\<close>

lemmas ops_defs = call_def Alert_alert_def console_line_def setCards_def

lemma filter_neq_absent: "k \<notin> f ` set xs \<Longrightarrow> filter (\<lambda>c. f c \<noteq> k) xs = xs"
  by (induction xs) auto

lemma deleteCard_cards: "cards (deleteCard k s) = filter (\<lambda>c. id_card c \<noteq> k) (cards s)"
  by (simp add: deleteCard_def setCards_def)

text \<open>
The five ways through \<open>scanNfc\<close>, one for each result of the awaited calls.
\<close>

lemma scanNfc_request_throws:
  "requestTechnology nfc = Some ex \<Longrightarrow>
     scanNfc dec nfc s = scanNfc_finally (scanNfc_catch ex (call RequestTechnology s))"
  by (simp add: scanNfc_def scanNfc_try_def)

lemma scanNfc_getTag_throws:
  "requestTechnology nfc = None \<Longrightarrow> getTag nfc = Inl ex \<Longrightarrow>
     scanNfc dec nfc s = scanNfc_finally (scanNfc_catch ex (call GetTag (call RequestTechnology s)))"
  by (simp add: scanNfc_def scanNfc_try_def)

lemma scanNfc_no_tag:
  "requestTechnology nfc = None \<Longrightarrow> getTag nfc = Inr None \<Longrightarrow>
     scanNfc dec nfc s = scanNfc_finally (call GetTag (call RequestTechnology s))"
  by (simp add: scanNfc_def scanNfc_try_def)

lemma scanNfc_decode_throws:
  "requestTechnology nfc = None \<Longrightarrow> getTag nfc = Inr (Some tag) \<Longrightarrow> parsedData dec tag = Inl ex \<Longrightarrow>
     scanNfc dec nfc s = scanNfc_finally (scanNfc_catch ex (call GetTag (call RequestTechnology s)))"
  by (simp add: scanNfc_def scanNfc_try_def)

lemma scanNfc_scanned:
  "requestTechnology nfc = None \<Longrightarrow> getTag nfc = Inr (Some tag) \<Longrightarrow> parsedData dec tag = Inr text \<Longrightarrow>
     scanNfc dec nfc s =
       scanNfc_finally (setCards (\<lambda>prev. prev @ [newCard text (int (length prev) + 1)])
         (call GetTag (call RequestTechnology s)))"
  by (simp add: scanNfc_def scanNfc_try_def)

lemma cards_scanNfc_scanned:
  "requestTechnology nfc = None \<Longrightarrow> getTag nfc = Inr (Some tag) \<Longrightarrow> parsedData dec tag = Inr text \<Longrightarrow>
     cards (scanNfc dec nfc s) = cards s @ [newCard text (int (length (cards s)) + 1)]"
  by (simp add: scanNfc_scanned scanNfc_finally_def ops_defs)

lemma initializeNfc_unsupported:
  "isSupported nfc = Inr False \<Longrightarrow>
     initializeNfc nfc s = (console_line [''NFC not supported''] (call IsSupported s))\<lparr>isNfcSupported := False\<rparr>"
  by (simp add: initializeNfc_def)

lemma openScanModal_funpow_unsupported:
  "\<not> isNfcSupported s \<Longrightarrow>
     (openScanModal ^^ n) s
       = s\<lparr>alerts := alerts s @ replicate n (''NFC Error'', ''NFC is not supported on this device'')\<rparr>"
  by (induction n) (simp_all add: openScanModal_def Alert_alert_def replicate_append_same)

text \<open>
The stand-ins evaluated.
\<close>

lemma decodePayload_mock_hello:
  "decodePayload_mock (Uint8Array [104, 101, 108, 108, 111]) = Inr ''hello''"
  by code_simp

lemma decodePayload_mock_empty: "decodePayload_mock (Uint8Array []) = Inl ''empty payload''"
  by (simp add: decodePayload_mock_def Uint8Array_def)

lemma mock_hello_scan:
  "requestTechnology (mock_nfc None (mock_tag [[104, 101, 108, 108, 111]])) = None"
  "getTag (mock_nfc None (mock_tag [[104, 101, 108, 108, 111]]))
     = Inr (Some \<lparr>ndefMessage = Some [\<lparr>payload = [104, 101, 108, 108, 111]\<rparr>]\<rparr>)"
  "ndefMessage \<lparr>ndefMessage = Some [\<lparr>payload = [104, 101, 108, 108, 111]\<rparr>]\<rparr>
     = Some [\<lparr>payload = [104, 101, 108, 108, 111]\<rparr>]"
  "decodePayload_mock (Uint8Array (payload \<lparr>payload = [104, 101, 108, 108, 111]\<rparr>)) = Inr ''hello''"
  "parsedData decodePayload_mock \<lparr>ndefMessage = Some [\<lparr>payload = [104, 101, 108, 108, 111]\<rparr>]\<rparr>
     = Inr ''hello''"
  by (simp_all add: mock_nfc_def mock_tag_def parsedData_def decodePayload_mock_hello)

section \<open>The scan session is always released\<close>

text \<open>
  Claim C1. Every invocation of \<open>scanNfc\<close>, whatever the NFC service and the decoder
  do, calls \<open>cancelTechnologyRequest\<close> exactly once (the number of such calls grows
  by one), as its last call to the service, and leaves the scan-confirmation surface closed;
  when the session request throws, the card collection is as before.
\<close>

theorem scanNfc_releases_session_once:
  "count_list (nfc_calls (scanNfc dec nfc s)) CancelTechnologyRequest
     = Suc (count_list (nfc_calls s) CancelTechnologyRequest)
   \<and> last (nfc_calls (scanNfc dec nfc s)) = CancelTechnologyRequest
   \<and> \<not> scanModalVisible (scanNfc dec nfc s)
   \<and> (\<forall>ex. requestTechnology nfc = Some ex \<longrightarrow> cards (scanNfc dec nfc s) = cards s)"
proof -
  have a: "count_list (nfc_calls (scanNfc dec nfc s)) CancelTechnologyRequest
     = Suc (count_list (nfc_calls s) CancelTechnologyRequest)"
    by (simp add: scanNfc_def scanNfc_try_def scanNfc_finally_def scanNfc_catch_def ops_defs Let_def
      split: option.splits sum.splits)
  have b: "last (nfc_calls (scanNfc dec nfc s)) = CancelTechnologyRequest"
    by (simp add: scanNfc_def scanNfc_try_def scanNfc_finally_def scanNfc_catch_def ops_defs Let_def
      split: option.splits sum.splits)
  have c: "\<not> scanModalVisible (scanNfc dec nfc s)"
    by (simp add: scanNfc_def scanNfc_try_def scanNfc_finally_def Let_def
      split: option.splits sum.splits)
  have d: "\<forall>ex. requestTechnology nfc = Some ex \<longrightarrow> cards (scanNfc dec nfc s) = cards s"
    by (simp add: scanNfc_request_throws scanNfc_finally_def scanNfc_catch_def ops_defs)
  from a b c d show ?thesis by blast
qed

text \<open>
  Claim C1 at a concrete input: the session request is rejected with \<open>''busy''\<close> in
  the initial state; the collection is unchanged, the session is released once and the
  surface is closed.
\<close>

theorem scanNfc_releases_session_once_witness:
  "requestTechnology (mock_nfc (Some ''busy'') (Inr None)) = Some ''busy''
   \<and> cards (scanNfc decodePayload_mock (mock_nfc (Some ''busy'') (Inr None)) App) = cards App
   \<and> count_list (nfc_calls (scanNfc decodePayload_mock (mock_nfc (Some ''busy'') (Inr None)) App))
        CancelTechnologyRequest = 1
   \<and> \<not> scanModalVisible (scanNfc decodePayload_mock (mock_nfc (Some ''busy'') (Inr None)) App)"
proof -
  have h: "requestTechnology (mock_nfc (Some ''busy'') (Inr None)) = Some ''busy''"
    by (simp add: mock_nfc_def)
  have "nfc_calls App = []"
    by (simp add: App_def)
  with h scanNfc_releases_session_once [of decodePayload_mock "mock_nfc (Some ''busy'') (Inr None)" App]
  show ?thesis
    by simp
qed

section \<open>Failures of the scan\<close>

text \<open>
  Claim C2, as the code has it. When the session request, the tag read or the decoding of
  the first record throws, \<open>scanNfc\<close> shows the notice
  \<open>(''NFC Error'', ''Failed to scan NFC tag'')\<close> and leaves the collection unchanged.
  When the service returns no tag, no exception is raised: the guard \<open>if (tag)\<close> skips
  the append, the collection is unchanged, and no notice is shown.
\<close>

theorem scanNfc_exception_surfaces_notice:
  "(requestTechnology nfc = Some ex \<longrightarrow>
      alerts (scanNfc dec nfc s) = alerts s @ [(''NFC Error'', ''Failed to scan NFC tag'')]
      \<and> cards (scanNfc dec nfc s) = cards s)
   \<and> (requestTechnology nfc = None \<and> getTag nfc = Inl ex \<longrightarrow>
      alerts (scanNfc dec nfc s) = alerts s @ [(''NFC Error'', ''Failed to scan NFC tag'')]
      \<and> cards (scanNfc dec nfc s) = cards s)
   \<and> (requestTechnology nfc = None \<and> getTag nfc = Inr (Some tag) \<and> parsedData dec tag = Inl ex \<longrightarrow>
      alerts (scanNfc dec nfc s) = alerts s @ [(''NFC Error'', ''Failed to scan NFC tag'')]
      \<and> cards (scanNfc dec nfc s) = cards s)
   \<and> (requestTechnology nfc = None \<and> getTag nfc = Inr None \<longrightarrow>
      alerts (scanNfc dec nfc s) = alerts s \<and> cards (scanNfc dec nfc s) = cards s)"
proof (intro conjI impI)
  assume "requestTechnology nfc = Some ex"
  then have "scanNfc dec nfc s = scanNfc_finally (scanNfc_catch ex (call RequestTechnology s))"
    by (rule scanNfc_request_throws)
  then show "alerts (scanNfc dec nfc s) = alerts s @ [(''NFC Error'', ''Failed to scan NFC tag'')]"
    and "cards (scanNfc dec nfc s) = cards s"
    by (simp_all add: scanNfc_finally_def scanNfc_catch_def ops_defs)
next
  assume "requestTechnology nfc = None \<and> getTag nfc = Inl ex"
  then have "scanNfc dec nfc s
      = scanNfc_finally (scanNfc_catch ex (call GetTag (call RequestTechnology s)))"
    by (simp add: scanNfc_getTag_throws)
  then show "alerts (scanNfc dec nfc s) = alerts s @ [(''NFC Error'', ''Failed to scan NFC tag'')]"
    and "cards (scanNfc dec nfc s) = cards s"
    by (simp_all add: scanNfc_finally_def scanNfc_catch_def ops_defs)
next
  assume "requestTechnology nfc = None \<and> getTag nfc = Inr (Some tag) \<and> parsedData dec tag = Inl ex"
  then have "scanNfc dec nfc s
      = scanNfc_finally (scanNfc_catch ex (call GetTag (call RequestTechnology s)))"
    by (simp add: scanNfc_decode_throws)
  then show "alerts (scanNfc dec nfc s) = alerts s @ [(''NFC Error'', ''Failed to scan NFC tag'')]"
    and "cards (scanNfc dec nfc s) = cards s"
    by (simp_all add: scanNfc_finally_def scanNfc_catch_def ops_defs)
next
  assume "requestTechnology nfc = None \<and> getTag nfc = Inr None"
  then have "scanNfc dec nfc s = scanNfc_finally (call GetTag (call RequestTechnology s))"
    by (simp add: scanNfc_no_tag)
  then show "alerts (scanNfc dec nfc s) = alerts s" and "cards (scanNfc dec nfc s) = cards s"
    by (simp_all add: scanNfc_finally_def ops_defs)
qed

text \<open>
  Claim C2, amended, at concrete inputs, one for each of its four cases: a rejected session
  request, a rejected tag read, a record with an empty payload that the decoder rejects, and
  no tag.
\<close>

theorem scanNfc_exception_surfaces_notice_witness:
  "(requestTechnology (mock_nfc (Some ''busy'') (Inr None)) = Some ''busy''
    \<and> alerts (scanNfc decodePayload_mock (mock_nfc (Some ''busy'') (Inr None)) App)
        = [(''NFC Error'', ''Failed to scan NFC tag'')]
    \<and> cards (scanNfc decodePayload_mock (mock_nfc (Some ''busy'') (Inr None)) App) = cards App)
   \<and> (getTag (mock_nfc None (Inl ''tag lost'')) = Inl ''tag lost''
    \<and> alerts (scanNfc decodePayload_mock (mock_nfc None (Inl ''tag lost'')) App)
        = [(''NFC Error'', ''Failed to scan NFC tag'')]
    \<and> cards (scanNfc decodePayload_mock (mock_nfc None (Inl ''tag lost'')) App) = cards App)
   \<and> (getTag (mock_nfc None (mock_tag [[]])) = Inr (Some \<lparr>ndefMessage = Some [\<lparr>payload = []\<rparr>]\<rparr>)
    \<and> parsedData decodePayload_mock \<lparr>ndefMessage = Some [\<lparr>payload = []\<rparr>]\<rparr> = Inl ''empty payload''
    \<and> alerts (scanNfc decodePayload_mock (mock_nfc None (mock_tag [[]])) App)
        = [(''NFC Error'', ''Failed to scan NFC tag'')]
    \<and> cards (scanNfc decodePayload_mock (mock_nfc None (mock_tag [[]])) App) = cards App)
   \<and> (getTag (mock_nfc None (Inr None)) = Inr None
    \<and> alerts (scanNfc decodePayload_mock (mock_nfc None (Inr None)) App) = []
    \<and> cards (scanNfc decodePayload_mock (mock_nfc None (Inr None)) App) = cards App)"
proof -
  have a: "alerts App = []"
    by (simp add: App_def)
  have r1: "requestTechnology (mock_nfc (Some ''busy'') (Inr None)) = Some ''busy''"
    by (simp add: mock_nfc_def)
  have r2: "requestTechnology (mock_nfc None (Inl ''tag lost'')) = None"
    "getTag (mock_nfc None (Inl ''tag lost'')) = Inl ''tag lost''"
    by (simp_all add: mock_nfc_def)
  have r3: "requestTechnology (mock_nfc None (mock_tag [[]])) = None"
    "getTag (mock_nfc None (mock_tag [[]])) = Inr (Some \<lparr>ndefMessage = Some [\<lparr>payload = []\<rparr>]\<rparr>)"
    "parsedData decodePayload_mock \<lparr>ndefMessage = Some [\<lparr>payload = []\<rparr>]\<rparr> = Inl ''empty payload''"
    by (simp_all add: mock_nfc_def mock_tag_def parsedData_def decodePayload_mock_empty)
  have r4: "requestTechnology (mock_nfc None (Inr None)) = None"
    "getTag (mock_nfc None (Inr None)) = Inr None"
    by (simp_all add: mock_nfc_def)
  have c1: "alerts (scanNfc decodePayload_mock (mock_nfc (Some ''busy'') (Inr None)) App)
        = [(''NFC Error'', ''Failed to scan NFC tag'')]
    \<and> cards (scanNfc decodePayload_mock (mock_nfc (Some ''busy'') (Inr None)) App) = cards App"
    using r1 a scanNfc_exception_surfaces_notice
      [where nfc = "mock_nfc (Some ''busy'') (Inr None)" and ex = "''busy''"
         and dec = decodePayload_mock and s = App]
    by simp
  have c2: "alerts (scanNfc decodePayload_mock (mock_nfc None (Inl ''tag lost'')) App)
        = [(''NFC Error'', ''Failed to scan NFC tag'')]
    \<and> cards (scanNfc decodePayload_mock (mock_nfc None (Inl ''tag lost'')) App) = cards App"
    using r2 a scanNfc_exception_surfaces_notice
      [where nfc = "mock_nfc None (Inl ''tag lost'')" and ex = "''tag lost''"
         and dec = decodePayload_mock and s = App]
    by simp
  have c3: "alerts (scanNfc decodePayload_mock (mock_nfc None (mock_tag [[]])) App)
        = [(''NFC Error'', ''Failed to scan NFC tag'')]
    \<and> cards (scanNfc decodePayload_mock (mock_nfc None (mock_tag [[]])) App) = cards App"
    using r3 a scanNfc_exception_surfaces_notice
      [where nfc = "mock_nfc None (mock_tag [[]])" and ex = "''empty payload''"
         and dec = decodePayload_mock and s = App
         and tag = "\<lparr>ndefMessage = Some [\<lparr>payload = []\<rparr>]\<rparr>"]
    by simp
  have c4: "alerts (scanNfc decodePayload_mock (mock_nfc None (Inr None)) App) = []
    \<and> cards (scanNfc decodePayload_mock (mock_nfc None (Inr None)) App) = cards App"
    using r4 a scanNfc_exception_surfaces_notice
      [where nfc = "mock_nfc None (Inr None)" and dec = decodePayload_mock and s = App]
    by simp
  from r1 r2 r3 r4 c1 c2 c3 c4 show ?thesis
    by blast
qed

text \<open>
  Claim C2 as stated fails when no tag is present: the session is granted, the service
  returns no tag, and after the scan from the initial state no notice at all has been shown.
\<close>

theorem scanNfc_no_tag_counterexample:
  "requestTechnology (mock_nfc None (Inr None)) = None
   \<and> getTag (mock_nfc None (Inr None)) = Inr None
   \<and> alerts (scanNfc decodePayload_mock (mock_nfc None (Inr None)) App) = []"
  by (simp add: scanNfc_no_tag mock_nfc_def scanNfc_finally_def ops_defs App_def)

section \<open>The card appended by a successful scan\<close>

text \<open>
  Claim C3, as the code has it. A successful scan appends one card whose identifier is the
  length of the collection at the time of the scan plus one (\<open>prev.length + 1\<close>).
\<close>

theorem scanNfc_generated_identifier:
  "requestTechnology nfc = None \<Longrightarrow> getTag nfc = Inr (Some tag) \<Longrightarrow> parsedData dec tag = Inr text \<Longrightarrow>
     \<exists>c. cards (scanNfc dec nfc s) = cards s @ [c] \<and> id_card c = int (length (cards s)) + 1"
  by (simp add: cards_scanNfc_scanned newCard_def)

text \<open>
  Claim C3, amended, at a concrete input: scanning a tag that decodes to \<open>''hello''\<close>
  in the initial one-card state appends a card with identifier 2.
\<close>

theorem scanNfc_generated_identifier_witness:
  "parsedData decodePayload_mock \<lparr>ndefMessage = Some [\<lparr>payload = [104, 101, 108, 108, 111]\<rparr>]\<rparr>
     = Inr ''hello''
   \<and> (\<exists>c. cards (scanNfc decodePayload_mock (mock_nfc None (mock_tag [[104, 101, 108, 108, 111]])) App)
            = cards App @ [c] \<and> id_card c = 2)"
proof -
  have "length (cards App) = 1"
    by (simp add: App_def)
  with scanNfc_generated_identifier [OF mock_hello_scan(1) mock_hello_scan(2) mock_hello_scan(5), of App]
    mock_hello_scan(5)
  show ?thesis
    by simp
qed

text \<open>
  Claim C3 as stated fails: in the initial state the collection has length 1 and the card
  appended by a successful scan does not have that identifier.
\<close>

theorem scanNfc_identifier_counterexample:
  "id_card (last (cards (scanNfc decodePayload_mock (mock_nfc None (mock_tag [[104, 101, 108, 108, 111]])) App)))
     \<noteq> int (length (cards App))"
proof -
  have "parsedData decodePayload_mock \<lparr>ndefMessage = Some [\<lparr>payload = [104, 101, 108, 108, 111]\<rparr>]\<rparr> = Inr ''hello''"
    by (simp add: parsedData_def decodePayload_mock_hello)
  then have "cards (scanNfc decodePayload_mock (mock_nfc None (mock_tag [[104, 101, 108, 108, 111]])) App)
      = cards App @ [newCard ''hello'' (int (length (cards App)) + 1)]"
    by (intro cards_scanNfc_scanned) (simp_all add: mock_nfc_def mock_tag_def)
  then show ?thesis
    by (simp add: newCard_def)
qed

text \<open>
  Claim C4. For every starting collection, a scan that is granted the session and reads a tag
  with at least one record, whose first payload the decoder turns into a text, yields the
  old collection followed by exactly one new card, whose \<open>nfcData\<close> is that text.
\<close>

theorem scanNfc_appends_decoded_record:
  "requestTechnology nfc = None \<Longrightarrow> getTag nfc = Inr (Some tag) \<Longrightarrow>
   ndefMessage tag = Some (r # rs) \<Longrightarrow> dec (Uint8Array (payload r)) = Inr decoded \<Longrightarrow>
     \<exists>c. cards (scanNfc dec nfc s) = cards s @ [c] \<and> nfcData c = Some decoded"
proof -
  assume req: "requestTechnology nfc = None" and tag: "getTag nfc = Inr (Some tag)"
    and msg: "ndefMessage tag = Some (r # rs)" and dec: "dec (Uint8Array (payload r)) = Inr decoded"
  from msg dec have "parsedData dec tag = Inr decoded"
    by (simp add: parsedData_def)
  with req tag have "cards (scanNfc dec nfc s) = cards s @ [newCard decoded (int (length (cards s)) + 1)]"
    by (rule cards_scanNfc_scanned)
  then show ?thesis
    by (simp add: newCard_def)
qed

text \<open>
  Claim C4 at a concrete input: a tag with one record of payload bytes
  \<open>104, 101, 108, 108, 111\<close>, scanned in the initial state.
\<close>

theorem scanNfc_appends_decoded_record_witness:
  "decodePayload_mock (Uint8Array [104, 101, 108, 108, 111]) = Inr ''hello''
   \<and> (\<exists>c. cards (scanNfc decodePayload_mock (mock_nfc None (mock_tag [[104, 101, 108, 108, 111]])) App)
            = cards App @ [c] \<and> nfcData c = Some ''hello'')"
  using scanNfc_appends_decoded_record
      [where dec = decodePayload_mock and r = "\<lparr>payload = [104, 101, 108, 108, 111]\<rparr>"
         and rs = "[]" and decoded = "''hello''" and s = App,
       OF mock_hello_scan(1) mock_hello_scan(2) mock_hello_scan(3) mock_hello_scan(4)]
    decodePayload_mock_hello
  by simp

text \<open>
  Claim C7. A scan that reads a tag whose record list is empty appends exactly one card,
  whose \<open>nfcData\<close> is the literal \<open>''No readable data''\<close>; the decoder is not
  consulted.
\<close>

theorem scanNfc_no_records_placeholder:
  "requestTechnology nfc = None \<Longrightarrow> getTag nfc = Inr (Some tag) \<Longrightarrow> ndefMessage tag = Some [] \<Longrightarrow>
     \<exists>c. cards (scanNfc dec nfc s) = cards s @ [c] \<and> nfcData c = Some ''No readable data''"
proof -
  assume req: "requestTechnology nfc = None" and tag: "getTag nfc = Inr (Some tag)"
    and msg: "ndefMessage tag = Some []"
  from msg have "parsedData dec tag = Inr ''No readable data''"
    by (simp add: parsedData_def)
  with req tag have "cards (scanNfc dec nfc s)
      = cards s @ [newCard ''No readable data'' (int (length (cards s)) + 1)]"
    by (rule cards_scanNfc_scanned)
  then show ?thesis
    by (simp add: newCard_def)
qed

text \<open>
  Claim C7 at a concrete input: a tag without records, scanned in the initial state.
\<close>

theorem scanNfc_no_records_placeholder_witness:
  "getTag (mock_nfc None (mock_tag [])) = Inr (Some \<lparr>ndefMessage = Some []\<rparr>)
   \<and> (\<exists>c. cards (scanNfc decodePayload_mock (mock_nfc None (mock_tag [])) App) = cards App @ [c]
          \<and> nfcData c = Some ''No readable data'')"
proof -
  have r: "requestTechnology (mock_nfc None (mock_tag [])) = None"
    and t: "getTag (mock_nfc None (mock_tag [])) = Inr (Some \<lparr>ndefMessage = Some []\<rparr>)"
    and m: "ndefMessage \<lparr>ndefMessage = Some []\<rparr> = Some []"
    by (simp_all add: mock_nfc_def mock_tag_def)
  from t scanNfc_no_records_placeholder [OF r t m, of decodePayload_mock App]
  show ?thesis
    by simp
qed

section \<open>Deleting a card\<close>

text \<open>
  Claim C5. For every collection and identifier \<open>k\<close>: what \<open>deleteCard k\<close> leaves is a
  subsequence of the collection (nothing is added or reordered) that holds no card with
  identifier \<open>k\<close> and still holds every other card, in the same order; when no card has
  identifier \<open>k\<close> the state is unchanged; and when exactly one card has it, exactly that
  card is removed.
\<close>

theorem deleteCard_removes_exactly:
  "subseq (cards (deleteCard k s)) (cards s)
   \<and> k \<notin> id_card ` set (cards (deleteCard k s))
   \<and> filter (\<lambda>c. id_card c \<noteq> k) (cards (deleteCard k s)) = filter (\<lambda>c. id_card c \<noteq> k) (cards s)
   \<and> (k \<notin> id_card ` set (cards s) \<longrightarrow> deleteCard k s = s)
   \<and> (\<forall>xs c ys. cards s = xs @ c # ys \<and> id_card c = k \<and> k \<notin> id_card ` set xs \<and> k \<notin> id_card ` set ys
        \<longrightarrow> cards (deleteCard k s) = xs @ ys)"
proof -
  have a: "subseq (cards (deleteCard k s)) (cards s)"
    by (simp add: deleteCard_cards)
  have b: "k \<notin> id_card ` set (cards (deleteCard k s))"
    by (auto simp: deleteCard_cards)
  have c: "filter (\<lambda>c. id_card c \<noteq> k) (cards (deleteCard k s)) = filter (\<lambda>c. id_card c \<noteq> k) (cards s)"
    by (simp add: deleteCard_cards)
  have d: "k \<notin> id_card ` set (cards s) \<longrightarrow> deleteCard k s = s"
    by (simp add: deleteCard_def setCards_def filter_neq_absent)
  have e: "\<forall>xs c ys. cards s = xs @ c # ys \<and> id_card c = k \<and> k \<notin> id_card ` set xs \<and> k \<notin> id_card ` set ys
        \<longrightarrow> cards (deleteCard k s) = xs @ ys"
    by (simp add: deleteCard_cards filter_neq_absent)
  from a b c d e show ?thesis by blast
qed

text \<open>
  Claim C5 at a concrete input: of three cards with identifiers 1, 2, 3, deleting 2 leaves
  the first and the third, and deleting 7 changes nothing.
\<close>

theorem deleteCard_removes_exactly_witness:
  "cards mock_three_cards = [newCard ''a'' 1, newCard ''b'' 2, newCard ''c'' 3]
   \<and> cards (deleteCard 2 mock_three_cards) = [newCard ''a'' 1, newCard ''c'' 3]
   \<and> deleteCard 7 mock_three_cards = mock_three_cards"
proof -
  have c: "cards mock_three_cards = [newCard ''a'' 1] @ newCard ''b'' 2 # [newCard ''c'' 3]"
    by (simp add: mock_three_cards_def)
  have i: "id_card (newCard ''b'' 2) = 2" "2 \<notin> id_card ` set [newCard ''a'' 1]"
    "2 \<notin> id_card ` set [newCard ''c'' 3]" "7 \<notin> id_card ` set (cards mock_three_cards)"
    by (simp_all add: mock_three_cards_def newCard_def)
  from deleteCard_removes_exactly [of 2 mock_three_cards] c i
  have "cards (deleteCard 2 mock_three_cards) = [newCard ''a'' 1] @ [newCard ''c'' 3]"
    by blast
  moreover from deleteCard_removes_exactly [of 7 mock_three_cards] i
  have "deleteCard 7 mock_three_cards = mock_three_cards"
    by blast
  ultimately show ?thesis
    using c by simp
qed

text \<open>
  Claim C10. For every collection and identifier \<open>k\<close>, one \<open>deleteCard k\<close> removes
  every card with identifier \<open>k\<close>: none is left, and the collection shrinks by the number
  of cards that had it, however many they were.
\<close>

theorem deleteCard_removes_all_matching:
  "filter (\<lambda>c. id_card c = k) (cards (deleteCard k s)) = []
   \<and> length (cards (deleteCard k s)) + length (filter (\<lambda>c. id_card c = k) (cards s)) = length (cards s)"
proof -
  have "length (filter (\<lambda>c. id_card c \<noteq> k) xs) + length (filter (\<lambda>c. id_card c = k) xs) = length xs" for xs
    by (induction xs) auto
  then show ?thesis
    by (simp add: deleteCard_cards)
qed

section \<open>The scan trigger without NFC support\<close>

text \<open>
  Claim C6. When the capability check reports the hardware as unsupported, the capability
  flag is off after it (and the check touches neither the collection nor the
  scan-confirmation surface). While the flag is off, any number \<open>n\<close> of invocations of
  \<open>openScanModal\<close> show \<open>n\<close> notices
  \<open>(''NFC Error'', ''NFC is not supported on this device'')\<close>, one for each invocation,
  and leave the surface, the collection and the flag as they were.
\<close>

theorem openScanModal_unsupported:
  "(isSupported nfc = Inr False \<longrightarrow>
      \<not> isNfcSupported (initializeNfc nfc s0)
      \<and> cards (initializeNfc nfc s0) = cards s0
      \<and> scanModalVisible (initializeNfc nfc s0) = scanModalVisible s0)
   \<and> (\<not> isNfcSupported s \<longrightarrow>
      alerts ((openScanModal ^^ n) s)
        = alerts s @ replicate n (''NFC Error'', ''NFC is not supported on this device'')
      \<and> scanModalVisible ((openScanModal ^^ n) s) = scanModalVisible s
      \<and> cards ((openScanModal ^^ n) s) = cards s
      \<and> \<not> isNfcSupported ((openScanModal ^^ n) s))"
proof (intro conjI impI)
  assume "isSupported nfc = Inr False"
  then have "initializeNfc nfc s0
      = (console_line [''NFC not supported''] (call IsSupported s0))\<lparr>isNfcSupported := False\<rparr>"
    by (rule initializeNfc_unsupported)
  then show "\<not> isNfcSupported (initializeNfc nfc s0)"
    and "cards (initializeNfc nfc s0) = cards s0"
    and "scanModalVisible (initializeNfc nfc s0) = scanModalVisible s0"
    by (simp_all add: ops_defs)
next
  assume "\<not> isNfcSupported s"
  then have eq: "(openScanModal ^^ n) s
      = s\<lparr>alerts := alerts s @ replicate n (''NFC Error'', ''NFC is not supported on this device'')\<rparr>"
    by (rule openScanModal_funpow_unsupported)
  show "alerts ((openScanModal ^^ n) s)
      = alerts s @ replicate n (''NFC Error'', ''NFC is not supported on this device'')"
    by (simp add: eq)
  show "scanModalVisible ((openScanModal ^^ n) s) = scanModalVisible s"
    by (simp add: eq)
  show "cards ((openScanModal ^^ n) s) = cards s"
    by (simp add: eq)
  show "\<not> isNfcSupported ((openScanModal ^^ n) s)"
    using \<open>\<not> isNfcSupported s\<close> by (simp add: eq)
qed

text \<open>
  Claim C6 at a concrete input: the check against a service without NFC support on the
  initial state, followed by two invocations of the scan trigger.
\<close>

theorem openScanModal_unsupported_witness:
  "isSupported mock_nfc_unsupported = Inr False
   \<and> \<not> isNfcSupported (initializeNfc mock_nfc_unsupported App)
   \<and> alerts ((openScanModal ^^ 2) (initializeNfc mock_nfc_unsupported App))
       = [(''NFC Error'', ''NFC is not supported on this device''),
          (''NFC Error'', ''NFC is not supported on this device'')]
   \<and> \<not> scanModalVisible ((openScanModal ^^ 2) (initializeNfc mock_nfc_unsupported App))
   \<and> cards ((openScanModal ^^ 2) (initializeNfc mock_nfc_unsupported App)) = cards App"
proof -
  have h: "isSupported mock_nfc_unsupported = Inr False"
    by (simp add: mock_nfc_unsupported_def)
  have i: "\<not> isNfcSupported (initializeNfc mock_nfc_unsupported App)"
    and c: "cards (initializeNfc mock_nfc_unsupported App) = cards App"
    and v: "scanModalVisible (initializeNfc mock_nfc_unsupported App) = scanModalVisible App"
    using openScanModal_unsupported [of mock_nfc_unsupported App] h by simp_all
  have a: "alerts (initializeNfc mock_nfc_unsupported App) = []"
    by (simp add: initializeNfc_unsupported h ops_defs App_def)
  have "scanModalVisible App = False"
    by (simp add: App_def)
  with h i c v a
    openScanModal_unsupported [of mock_nfc_unsupported App "initializeNfc mock_nfc_unsupported App" 2]
  show ?thesis
    by (simp add: numeral_2_eq_2)
qed

section \<open>Scenarios\<close>

text \<open>
  Claim C8. From the initial state, whose collection is the one seeded card with identifier
  1, a scan of a tag with one record that decodes to \<open>''hello''\<close> yields the seeded card
  followed by a card with identifier 2 and \<open>nfcData\<close> \<open>''hello''\<close>; deleting
  identifier 1 then leaves that second card alone.
\<close>

theorem scenario_scan_hello_then_delete:
  "requestTechnology nfc = None \<Longrightarrow> getTag nfc = Inr (Some tag) \<Longrightarrow>
   ndefMessage tag = Some [r] \<Longrightarrow> dec (Uint8Array (payload r)) = Inr ''hello'' \<Longrightarrow>
     map id_card (cards App) = [1]
     \<and> cards (scanNfc dec nfc App)
         = cards App @ [\<lparr>id_card = 2, title = ''New NFC Card'',
                          details = ''Card scanned successfully'', nfcData = Some ''hello''\<rparr>]
     \<and> cards (deleteCard 1 (scanNfc dec nfc App))
         = [\<lparr>id_card = 2, title = ''New NFC Card'',
              details = ''Card scanned successfully'', nfcData = Some ''hello''\<rparr>]"
proof -
  assume req: "requestTechnology nfc = None" and tag: "getTag nfc = Inr (Some tag)"
    and msg: "ndefMessage tag = Some [r]" and dec: "dec (Uint8Array (payload r)) = Inr ''hello''"
  from msg dec have "parsedData dec tag = Inr ''hello''"
    by (simp add: parsedData_def)
  with req tag have "cards (scanNfc dec nfc App)
      = cards App @ [newCard ''hello'' (int (length (cards App)) + 1)]"
    by (rule cards_scanNfc_scanned)
  then show ?thesis
    by (simp add: deleteCard_cards newCard_def App_def)
qed

text \<open>
  Claim C8 at a concrete input: the stand-in service and decoder, with the payload bytes of
  \<open>hello\<close>.
\<close>

theorem scenario_scan_hello_then_delete_witness:
  "map id_card (cards (scanNfc decodePayload_mock (mock_nfc None (mock_tag [[104, 101, 108, 108, 111]])) App))
     = [1, 2]
   \<and> map nfcData (cards (scanNfc decodePayload_mock (mock_nfc None (mock_tag [[104, 101, 108, 108, 111]])) App))
     = [None, Some ''hello'']
   \<and> cards (deleteCard 1 (scanNfc decodePayload_mock (mock_nfc None (mock_tag [[104, 101, 108, 108, 111]])) App))
     = [newCard ''hello'' 2]"
  using scenario_scan_hello_then_delete
      [where dec = decodePayload_mock and r = "\<lparr>payload = [104, 101, 108, 108, 111]\<rparr>",
       OF mock_hello_scan(1) mock_hello_scan(2) mock_hello_scan(3) mock_hello_scan(4)]
  by (simp add: newCard_def App_def)

text \<open>
  Claim C9. Identifiers do not stay unique: whatever the decoder, some sequence of
  successful scans and deletions from the initial state reaches a collection with two
  entries, at different positions, that have the same identifier (scan, delete 1, scan: both
  cards have identifier 2). When the decoder turns some payload into a text other than the
  placeholder, the two entries can moreover be different cards.
\<close>

theorem count_based_identifiers_collide:
  "(\<exists>evs i j. list_all (successful dec) evs
       \<and> i < j \<and> j < length (cards (run dec evs App))
       \<and> id_card (cards (run dec evs App) ! i) = id_card (cards (run dec evs App) ! j))
   \<and> (dec (Uint8Array p) = Inr text \<and> text \<noteq> ''No readable data'' \<longrightarrow>
        (\<exists>evs i j. list_all (successful dec) evs
           \<and> i < j \<and> j < length (cards (run dec evs App))
           \<and> id_card (cards (run dec evs App) ! i) = id_card (cards (run dec evs App) ! j)
           \<and> cards (run dec evs App) ! i \<noteq> cards (run dec evs App) ! j))"
proof (intro conjI impI)
  let ?nfc = "mock_nfc None (mock_tag [])"
  let ?evs = "[Scan ?nfc, Delete 1, Scan ?nfc]"
  have pd: "parsedData dec \<lparr>ndefMessage = Some []\<rparr> = Inr ''No readable data''"
    by (simp add: parsedData_def)
  have sc: "cards (scanNfc dec ?nfc s) = cards s @ [newCard ''No readable data'' (int (length (cards s)) + 1)]" for s
    using pd by (intro cards_scanNfc_scanned) (simp_all add: mock_nfc_def mock_tag_def)
  have cs: "cards (run dec ?evs App) = [newCard ''No readable data'' 2, newCard ''No readable data'' 2]"
    by (simp add: sc deleteCard_cards) (simp add: App_def newCard_def)
  have ok: "list_all (successful dec) ?evs"
    using pd by (simp add: mock_nfc_def mock_tag_def)
  have "(0::nat) < 1 \<and> 1 < length (cards (run dec ?evs App))
       \<and> id_card (cards (run dec ?evs App) ! 0) = id_card (cards (run dec ?evs App) ! 1)"
    unfolding cs by simp
  with ok show "\<exists>evs i j. list_all (successful dec) evs
       \<and> i < j \<and> j < length (cards (run dec evs App))
       \<and> id_card (cards (run dec evs App) ! i) = id_card (cards (run dec evs App) ! j)"
    by blast
next
  assume h: "dec (Uint8Array p) = Inr text \<and> text \<noteq> ''No readable data''"
  let ?nfc1 = "mock_nfc None (mock_tag [p])"
  let ?nfc2 = "mock_nfc None (mock_tag [])"
  let ?evs = "[Scan ?nfc1, Delete 1, Scan ?nfc2]"
  have pd1: "parsedData dec \<lparr>ndefMessage = Some [\<lparr>payload = p\<rparr>]\<rparr> = Inr text"
    using h by (simp add: parsedData_def)
  have pd2: "parsedData dec \<lparr>ndefMessage = Some []\<rparr> = Inr ''No readable data''"
    by (simp add: parsedData_def)
  have sc1: "cards (scanNfc dec ?nfc1 s) = cards s @ [newCard text (int (length (cards s)) + 1)]" for s
    using pd1 by (intro cards_scanNfc_scanned) (simp_all add: mock_nfc_def mock_tag_def)
  have sc2: "cards (scanNfc dec ?nfc2 s) = cards s @ [newCard ''No readable data'' (int (length (cards s)) + 1)]" for s
    using pd2 by (intro cards_scanNfc_scanned) (simp_all add: mock_nfc_def mock_tag_def)
  have cs: "cards (run dec ?evs App) = [newCard text 2, newCard ''No readable data'' 2]"
    by (simp add: sc1 sc2 deleteCard_cards) (simp add: App_def newCard_def)
  have ok: "list_all (successful dec) ?evs"
    using pd1 pd2 by (simp add: mock_nfc_def mock_tag_def)
  have "(0::nat) < 1 \<and> 1 < length (cards (run dec ?evs App))
       \<and> id_card (cards (run dec ?evs App) ! 0) = id_card (cards (run dec ?evs App) ! 1)
       \<and> cards (run dec ?evs App) ! 0 \<noteq> cards (run dec ?evs App) ! 1"
    unfolding cs using h by (simp add: newCard_def)
  with ok show "\<exists>evs i j. list_all (successful dec) evs
           \<and> i < j \<and> j < length (cards (run dec evs App))
           \<and> id_card (cards (run dec evs App) ! i) = id_card (cards (run dec evs App) ! j)
           \<and> cards (run dec evs App) ! i \<noteq> cards (run dec evs App) ! j"
    by blast
qed

text \<open>
  Claim C9 at a concrete input: the stand-in decoder and the payload bytes of \<open>hello\<close>.
\<close>

theorem count_based_identifiers_collide_witness:
  "decodePayload_mock (Uint8Array [104, 101, 108, 108, 111]) = Inr ''hello''
   \<and> (\<exists>evs i j. list_all (successful decodePayload_mock) evs
         \<and> i < j \<and> j < length (cards (run decodePayload_mock evs App))
         \<and> id_card (cards (run decodePayload_mock evs App) ! i)
             = id_card (cards (run decodePayload_mock evs App) ! j)
         \<and> cards (run decodePayload_mock evs App) ! i \<noteq> cards (run decodePayload_mock evs App) ! j)"
proof -
  have "''hello'' \<noteq> ''No readable data''"
    by simp
  with decodePayload_mock_hello
    count_based_identifiers_collide [of decodePayload_mock "[104, 101, 108, 108, 111]" "''hello''"]
  show ?thesis
    by blast
qed

end
